theory Spec2Isabelle
  imports Main
begin

section \<open>Errors\<close>

text \<open>
  Modelled from the spec: the error values of \<^verbatim>\<open>internal/xerrors\<close>, a package whose source
  is missing. An error is a sentinel (\<^verbatim>\<open>context.DeadlineExceeded\<close>, \<^verbatim>\<open>context.Canceled\<close>,
  and the \<^verbatim>\<open>ErrNoEndpoints\<close> of \<^verbatim>\<open>balancer.go\<close>), a failure of a collaborator (a transport failure with its RPC code,
  or any other failure), or a wrapper around a cause: \<^verbatim>\<open>xerrors.WithStackTrace\<close>
  (stack-trace augmentation that does not alter error identity), \<^verbatim>\<open>xerrors.Retryable\<close>
  (a tagged error wrapping the original cause with a retryability flag) and the
  \<^verbatim>\<open>fmt.Errorf("%w: cannot get connection from Balancer after %d attempts", ...)\<close> of
  \<^verbatim>\<open>getConn\<close>. \<open>NilSnapshot\<close> stands for the runtime panic of a method call on a nil
  snapshot pointer; it is no error value of the program.
\<close>

type_synonym code = nat

datatype error =
    DeadlineExceeded
  | Canceled
  | ErrNoEndpoints
  | Transport code
  | Failure string
  | WithStackTrace error
  | Retryable error
  | Errorf error nat
  | NilSnapshot

text \<open>
  Modelled from the spec: the chain of causes of an error, which Go's \<^verbatim>\<open>errors.Is\<close> walks
  through \<^verbatim>\<open>Unwrap\<close>; every wrapper unwraps to its cause.
\<close>

fun chain :: "error \<Rightarrow> error list" where
  "chain (WithStackTrace e) = WithStackTrace e # chain e"
| "chain (Retryable e) = Retryable e # chain e"
| "chain (Errorf e n) = Errorf e n # chain e"
| "chain e = [e]"

text \<open>
  Modelled from the spec: \<^verbatim>\<open>xerrors.Is(err, targets...)\<close>, whose source is missing: some
  target is met on the chain of \<open>err\<close>.
\<close>

definition Is :: "error \<Rightarrow> error list \<Rightarrow> bool" where
  "Is err targets = list_ex (\<lambda>t. t \<in> set (chain err)) targets"

text \<open>The root cause of an error: the end of its chain.\<close>

fun cause :: "error \<Rightarrow> error" where
  "cause (WithStackTrace e) = cause e"
| "cause (Retryable e) = cause e"
| "cause (Errorf e n) = cause e"
| "cause e = e"

text \<open>
  Modelled from the spec: the retryability flag the Retry Policy inspects, whose source is
  missing: the error carries the \<^verbatim>\<open>xerrors.Retryable\<close> tag somewhere on its chain.
\<close>

fun retryable :: "error \<Rightarrow> bool" where
  "retryable (WithStackTrace e) = retryable e"
| "retryable (Retryable e) = True"
| "retryable (Errorf e n) = retryable e"
| "retryable e = False"

section \<open>Endpoints, connections and the Connection Pool\<close>

text \<open>
  Modelled from the spec: \<^verbatim>\<open>endpoint.Endpoint\<close>, whose source is missing: a discovered node
  descriptor with its network address and its location tag (possibly empty).
\<close>

record Endpoint =
  Address :: string
  Location :: string

text \<open>
  Modelled from the spec: the health state of a Connection (\<^verbatim>\<open>conn.State\<close>, whose source is
  missing), Allowed or Banned.
\<close>

datatype State = Allowed | Banned

text \<open>
  Modelled from the spec: \<^verbatim>\<open>conn.Conn\<close> and \<^verbatim>\<open>conn.Pool\<close>, whose source is missing. A
  Connection is a handle bound to exactly one Endpoint and owned by the pool; the pool
  keeps the health flag of the connection of every address.
\<close>

type_synonym Conn = Endpoint

type_synonym Pool = "string \<Rightarrow> State"

text \<open>
  Modelled from the spec: \<^verbatim>\<open>Pool.Get\<close>, whose source is missing: given a node descriptor,
  returns the reusable connection handle of that endpoint.
\<close>

definition Get :: "Pool \<Rightarrow> Endpoint \<Rightarrow> Conn" where
  "Get p e = e"

text \<open>Modelled from the spec: \<^verbatim>\<open>Conn.GetState\<close>, whose source is missing: the health query.\<close>

definition GetState :: "Pool \<Rightarrow> Conn \<Rightarrow> State" where
  "GetState p c = p (Address c)"

text \<open>
  Modelled from the spec: \<^verbatim>\<open>Pool.Allow\<close>, whose source is missing: marks the connection
  Allowed.
\<close>

definition Allow :: "Pool \<Rightarrow> Conn \<Rightarrow> Pool" where
  "Allow p c = p(Address c := Allowed)"

text \<open>
  Modelled from the spec: \<^verbatim>\<open>Pool.Ban\<close>, whose source is missing: marks the connection
  Banned.
\<close>

definition Ban :: "Pool \<Rightarrow> Conn \<Rightarrow> Pool" where
  "Ban p c = p(Address c := Banned)"

section \<open>The snapshot of connections\<close>

text \<open>
  Modelled from the spec: the struct \<^verbatim>\<open>connectionsState\<close>, whose source is missing. An
  immutable snapshot: the connections partitioned into a preferred tier and a fallback
  tier, the caller's location, and the flag permitting the fallback tier. \<open>singleConn\<close>
  holds the one connection of a snapshot that was built for the single-connection mode.
\<close>

record connectionsState =
  preferConns :: "Conn list"
  fallbackConns :: "Conn list"
  selfLocation :: string
  allowFallback :: bool
  singleConn :: "Conn option"

text \<open>
  \<^verbatim>\<open>balancerConfig.PreferConnFunc\<close>: the configured preference, applied to
  \<^verbatim>\<open>balancerConfig.Info{SelfLocation: ...}\<close> and a connection.
\<close>

type_synonym PreferConnFunc = "string \<Rightarrow> Conn \<Rightarrow> bool"

text \<open>
  Modelled from the spec: \<^verbatim>\<open>newConnectionsState\<close>, whose source is missing, with the four
  arguments \<^verbatim>\<open>balancer.go\<close> passes. The preferred tier holds the connections the
  preference accepts, or all of them when there is none; the fallback tier holds
  everything else. The spec names the snapshot built for the single-connection mode
  without saying how it is known: here it is the snapshot built the way \<^verbatim>\<open>New\<close> builds it
  in that mode, from one connection, without a preference and without the fallback
  permission.
\<close>

definition newConnectionsState ::
  "Conn list \<Rightarrow> PreferConnFunc option \<Rightarrow> string \<Rightarrow> bool \<Rightarrow> connectionsState" where
  "newConnectionsState conns preferFunc info allowFb =
     \<lparr> preferConns = (case preferFunc of None \<Rightarrow> conns | Some p \<Rightarrow> filter (p info) conns),
       fallbackConns = (case preferFunc of None \<Rightarrow> [] | Some p \<Rightarrow> filter (\<lambda>c. \<not> p info c) conns),
       selfLocation = info,
       allowFallback = allowFb,
       singleConn = (case preferFunc of
                       None \<Rightarrow> (case conns of
                                  [c] \<Rightarrow> if allowFb then None else Some c
                                | _ \<Rightarrow> None)
                     | Some p \<Rightarrow> None) \<rparr>"

text \<open>
  Modelled from the spec: \<^verbatim>\<open>connectionsState.PreferredCount\<close>, whose source is missing: the
  preferred-tier size.
\<close>

definition PreferredCount :: "connectionsState \<Rightarrow> nat" where
  "PreferredCount s = length (preferConns s)"

text \<open>
  Modelled from the spec: the search of one tier by \<^verbatim>\<open>GetConnection\<close>, whose source is
  missing: Banned connections are skipped, each skip counted, until an Allowed one is
  met. The spec leaves the order of examination to the implementation; the tier is
  examined in its own order here.
\<close>

fun searchTier :: "Pool \<Rightarrow> Conn list \<Rightarrow> nat \<Rightarrow> Conn option \<times> nat" where
  "searchTier p [] failed = (None, failed)"
| "searchTier p (c # cs) failed =
     (if GetState p c = Banned then searchTier p cs (Suc failed) else (Some c, failed))"

text \<open>
  Modelled from the spec: \<^verbatim>\<open>connectionsState.GetConnection\<close>, whose source is missing. A
  snapshot built for the single-connection mode always returns its one connection;
  otherwise the preferred tier is searched first, then the fallback tier if that is
  permitted, the skips adding up; if nothing Allowed is found, no connection is returned
  together with the total skip count.
\<close>

definition GetConnection :: "connectionsState \<Rightarrow> Pool \<Rightarrow> Conn option \<times> nat" where
  "GetConnection s p =
     (case singleConn s of
        Some c \<Rightarrow> (Some c, 0)
      | None \<Rightarrow>
          (case searchTier p (preferConns s) 0 of
             (Some c, failed) \<Rightarrow> (Some c, failed)
           | (None, failed) \<Rightarrow>
               if allowFallback s then searchTier p (fallbackConns s) failed
               else (None, failed)))"

section \<open>Configuration, the Repeater and the Balancer\<close>

text \<open>
  \<^verbatim>\<open>balancerConfig.Config\<close>, a struct declared outside the sources, with the fields
  \<^verbatim>\<open>balancer.go\<close> reads. \<open>emptyBalancerConfig\<close> is its zero value,
  \<^verbatim>\<open>balancerConfig.Config{}\<close>.
\<close>

record BalancerConfig =
  SingleConn :: bool
  DetectlocalDC :: bool
  AllowFalback :: bool
  IsPreferConn :: "PreferConnFunc option"

definition emptyBalancerConfig :: BalancerConfig where
  "emptyBalancerConfig =
     \<lparr> SingleConn = False, DetectlocalDC = False, AllowFalback = False, IsPreferConn = None \<rparr>"

text \<open>
  \<^verbatim>\<open>config.Config\<close>, declared outside the sources, with the accessors \<^verbatim>\<open>balancer.go\<close>
  calls: \<^verbatim>\<open>Endpoint()\<close>, \<^verbatim>\<open>DialTimeout()\<close>, \<^verbatim>\<open>Balancer()\<close> (nil when not configured) and
  \<^verbatim>\<open>ExcludeGRPCCodesForPessimization()\<close>.
\<close>

record DriverConfig =
  ConfigEndpoint :: string
  DialTimeout :: int
  ConfigBalancer :: "BalancerConfig option"
  ExcludeGRPCCodesForPessimization :: "code list"

text \<open>
  Modelled from the spec: \<^verbatim>\<open>repeater.Repeater\<close>, whose source is missing. A Repeater runs
  a task on a fixed interval on a background schedule, until it is stopped; \<open>forced\<close>
  counts the out-of-band runs requested so far. The background runs themselves are not
  part of the model.
\<close>

record Repeater =
  interval :: int
  stopped :: bool
  forced :: nat

text \<open>Modelled from the spec: \<^verbatim>\<open>repeater.New\<close>, whose source is missing.\<close>

definition repeaterNew :: "int \<Rightarrow> Repeater" where
  "repeaterNew d = \<lparr> interval = d, stopped = False, forced = 0 \<rparr>"

text \<open>
  Modelled from the spec: \<^verbatim>\<open>Repeater.Force\<close>, whose source is missing: requests an
  out-of-band immediate run.
\<close>

definition Force :: "Repeater \<Rightarrow> Repeater" where
  "Force r = r\<lparr> forced := Suc (forced r) \<rparr>"

text \<open>
  Modelled from the spec: \<^verbatim>\<open>Repeater.Stop\<close>, whose source is missing: the stop signal,
  idempotent.
\<close>

definition Stop :: "Repeater \<Rightarrow> Repeater" where
  "Stop r = r\<lparr> stopped := True \<rparr>"

text \<open>
  The calls the Balancer makes on its lock, on the pool, on endpoints, on the update
  subscribers and on the discovery collaborators, in the order it makes them. A subscriber
  is known by a number; what it does with the endpoints it is given is its own affair.
\<close>

datatype event =
    EvRLock | EvRUnlock | EvLock | EvUnlock
  | EvSetState connectionsState
  | EvNotify nat "Endpoint list"
  | EvAllow Conn | EvBan Conn error | EvTouch Endpoint
  | EvWithTimeout int | EvWithCancel | EvCancel
  | EvDial | EvDiscover | EvDetect | EvClientClose
  | EvOperation Conn

text \<open>
  The \<^verbatim>\<open>Balancer\<close> struct. The tracing hooks (\<^verbatim>\<open>trace.DriverOnBalancer...\<close>) only observe and
  are left out; \<open>events\<close> is the record of the calls made so far. The snapshot pointer is nil
  until the first publication.
\<close>

record Balancer =
  driverConfig :: DriverConfig
  balancerConfig :: BalancerConfig
  pool :: Pool
  discoveryRepeater :: "Repeater option"
  connectionsState :: "connectionsState option"
  onDiscovery :: "nat list"
  events :: "event list"

definition emit :: "event list \<Rightarrow> Balancer \<Rightarrow> Balancer" where
  "emit evs b = b\<lparr> events := events b @ evs \<rparr>"

text \<open>\<^verbatim>\<open>OnUpdate\<close>: the subscriber is appended under the exclusive lock.\<close>

definition OnUpdate :: "nat \<Rightarrow> Balancer \<Rightarrow> Balancer" where
  "OnUpdate f b = emit [EvUnlock] ((emit [EvLock] b)\<lparr> onDiscovery := onDiscovery b @ [f] \<rparr>)"

section \<open>Discovery\<close>

text \<open>\<^verbatim>\<open>endpointsToConnections\<close>: every endpoint is resolved to its pool handle, in order.\<close>

fun endpointsToConnections :: "Pool \<Rightarrow> Endpoint list \<Rightarrow> Conn list" where
  "endpointsToConnections p [] = []"
| "endpointsToConnections p (e # es) = Get p e # endpointsToConnections p es"

text \<open>The first loop of \<^verbatim>\<open>applyDiscoveredEndpoints\<close>: allow the connection, touch its endpoint.\<close>

fun allowConnections :: "Conn list \<Rightarrow> Balancer \<Rightarrow> Balancer" where
  "allowConnections [] b = b"
| "allowConnections (c # cs) b =
     allowConnections cs (emit [EvAllow c, EvTouch c] (b\<lparr> pool := Allow (pool b) c \<rparr>))"

text \<open>The loop over the subscribers, inside the locked section.\<close>

fun notifySubscribers :: "nat list \<Rightarrow> Endpoint list \<Rightarrow> Balancer \<Rightarrow> Balancer" where
  "notifySubscribers [] endpointsInfo b = b"
| "notifySubscribers (f # fs) endpointsInfo b =
     notifySubscribers fs endpointsInfo (emit [EvNotify f endpointsInfo] b)"

text \<open>
  The locked section of \<^verbatim>\<open>applyDiscoveredEndpoints\<close> (lines 144-149): the pointer is
  swapped and the subscribers are called between \<^verbatim>\<open>Lock\<close> and \<^verbatim>\<open>Unlock\<close>.
\<close>

definition publish :: "connectionsState \<Rightarrow> Endpoint list \<Rightarrow> Balancer \<Rightarrow> Balancer" where
  "publish state endpointsInfo b =
     (let b1 = emit [EvLock] b;
          b2 = emit [EvSetState state] (b1\<lparr> connectionsState := Some state \<rparr>);
          b3 = notifySubscribers (onDiscovery b2) endpointsInfo b2
      in emit [EvUnlock] b3)"

definition applyDiscoveredEndpoints :: "Endpoint list \<Rightarrow> string \<Rightarrow> Balancer \<Rightarrow> Balancer" where
  "applyDiscoveredEndpoints endpoints localDC b =
     (let conns = endpointsToConnections (pool b) endpoints;
          b1 = allowConnections conns b;
          state = newConnectionsState conns (IsPreferConn (balancerConfig b1)) localDC
                    (AllowFalback (balancerConfig b1))
      in publish state endpoints b1)"

text \<open>
  What the collaborators answer during one discovery attempt: the dial of the Discovery
  Client, its \<^verbatim>\<open>Discover\<close>, the Locality Detector (all three run on the child context),
  and \<^verbatim>\<open>ctx.Err()\<close> of the attempt's own (parent) context when the deferred check reads it.
\<close>

record attempt =
  dial :: "error option"
  discover :: "error + Endpoint list"
  detect :: "error + string"
  parentErr :: "error option"

text \<open>The deferred function of \<^verbatim>\<open>clusterDiscoveryAttempt\<close> (lines 74-91), on the named result.\<close>

definition markRetryable :: "error option \<Rightarrow> error option \<Rightarrow> error option" where
  "markRetryable parent err =
     (case err of
        None \<Rightarrow> None
      | Some e \<Rightarrow>
          if parent = None \<and> Is e [DeadlineExceeded, Canceled]
          then Some (WithStackTrace (Retryable e))
          else Some e)"

text \<open>
  The deferred calls in the order they run at a return: \<^verbatim>\<open>client.Close\<close> (once a client
  was obtained), \<^verbatim>\<open>cancel\<close>, then the function above.
\<close>

definition leaveAttempt ::
  "attempt \<Rightarrow> bool \<Rightarrow> error option \<Rightarrow> Balancer \<Rightarrow> error option \<times> Balancer" where
  "leaveAttempt a client err b =
     (markRetryable (parentErr a) err,
      emit [EvCancel] (if client then emit [EvClientClose] b else b))"

definition clusterDiscoveryAttempt :: "attempt \<Rightarrow> Balancer \<Rightarrow> error option \<times> Balancer" where
  "clusterDiscoveryAttempt a b =
     (let dialTimeout = DialTimeout (driverConfig b);
          b0 = emit [if dialTimeout > 0 then EvWithTimeout dialTimeout else EvWithCancel] b;
          b1 = emit [EvDial] b0
      in case dial a of
           Some e \<Rightarrow> leaveAttempt a False (Some (WithStackTrace e)) b1
         | None \<Rightarrow>
             (let b2 = emit [EvDiscover] b1
              in case discover a of
                   Inl e \<Rightarrow> leaveAttempt a True (Some (WithStackTrace e)) b2
                 | Inr endpoints \<Rightarrow>
                     if DetectlocalDC (balancerConfig b2)
                     then (let b3 = emit [EvDetect] b2
                           in case detect a of
                                Inl e \<Rightarrow> leaveAttempt a True (Some (WithStackTrace e)) b3
                              | Inr localDC \<Rightarrow>
                                  leaveAttempt a True None
                                    (applyDiscoveredEndpoints endpoints localDC b3))
                     else leaveAttempt a True None
                            (applyDiscoveredEndpoints endpoints [] b2)))"

text \<open>
  Modelled from the spec: \<^verbatim>\<open>retry.Retry\<close>, whose source is missing. The Retry Policy
  repeats the operation until it succeeds, fails with an error that is not retryable, or
  its budget ends; the budget is the list of the answers the attempts get, and the error
  of the last attempt is returned when it ends.
\<close>

fun Retry ::
  "(attempt \<Rightarrow> Balancer \<Rightarrow> error option \<times> Balancer) \<Rightarrow> attempt \<Rightarrow> attempt list \<Rightarrow>
     Balancer \<Rightarrow> error option \<times> Balancer" where
  "Retry operation a [] b = operation a b"
| "Retry operation a (a' # as) b =
     (case operation a b of
        (None, b') \<Rightarrow> (None, b')
      | (Some e, b') \<Rightarrow> if retryable e then Retry operation a' as b' else (Some e, b'))"

definition withStackTrace :: "error option \<times> Balancer \<Rightarrow> error option \<times> Balancer" where
  "withStackTrace r = (case r of (None, b) \<Rightarrow> (None, b) | (Some e, b) \<Rightarrow> (Some (WithStackTrace e), b))"

definition clusterDiscovery :: "attempt \<Rightarrow> attempt list \<Rightarrow> Balancer \<Rightarrow> error option \<times> Balancer" where
  "clusterDiscovery a as b =
     withStackTrace (Retry (\<lambda>a b. withStackTrace (clusterDiscoveryAttempt a b)) a as b)"

section \<open>Construction and Close\<close>

text \<open>
  Modelled from the spec: \<^verbatim>\<open>endpoint.New\<close>, whose source is missing: the descriptor of an
  address, with no location.
\<close>

definition endpointNew :: "string \<Rightarrow> Endpoint" where
  "endpointNew address = \<lparr> Address = address, Location = [] \<rparr>"

text \<open>
  \<^verbatim>\<open>New\<close>. \<open>d\<close> is \<^verbatim>\<open>discoveryConfig.Interval()\<close>; \<open>a\<close> and \<open>as\<close> are the answers the discovery
  attempts of the initial round get. On an error no Balancer is returned.
\<close>

definition New ::
  "DriverConfig \<Rightarrow> Pool \<Rightarrow> int \<Rightarrow> attempt \<Rightarrow> attempt list \<Rightarrow> error + Balancer" where
  "New config p d a as =
     (let b = \<lparr> driverConfig = config,
                balancerConfig = (case ConfigBalancer config of
                                    None \<Rightarrow> emptyBalancerConfig
                                  | Some c \<Rightarrow> c),
                pool = p,
                discoveryRepeater = None,
                connectionsState = None,
                onDiscovery = [],
                events = [] \<rparr>
      in if SingleConn (balancerConfig b)
         then Inr (b\<lparr> connectionsState :=
                        Some (newConnectionsState
                                (endpointsToConnections p [endpointNew (ConfigEndpoint config)])
                                None [] False) \<rparr>)
         else (case clusterDiscovery a as b of
                 (Some e, b') \<Rightarrow> Inl (WithStackTrace e)
               | (None, b') \<Rightarrow>
                   Inr (if d > 0 then b'\<lparr> discoveryRepeater := Some (repeaterNew d) \<rparr>
                        else b')))"

definition Close :: "Balancer \<Rightarrow> error option \<times> Balancer" where
  "Close b =
     (None,
      case discoveryRepeater b of
        None \<Rightarrow> b
      | Some r \<Rightarrow> b\<lparr> discoveryRepeater := Some (Stop r) \<rparr>)"

section \<open>Selection and call dispatch\<close>

text \<open>
  What one call sees of its context: \<^verbatim>\<open>ctx.Err()\<close> at the entry of \<^verbatim>\<open>getConn\<close>, the error
  of \<^verbatim>\<open>driverConfig.Meta().Context(ctx)\<close> if it fails, and \<^verbatim>\<open>conn.UseWrapping(ctx)\<close>.
\<close>

record Ctx =
  Err :: "error option"
  MetaErr :: "error option"
  UseWrapping :: bool

text \<open>\<^verbatim>\<open>connections\<close>: the snapshot pointer is copied under the read lock.\<close>

definition connections :: "Balancer \<Rightarrow> connectionsState option \<times> Balancer" where
  "connections b = (connectionsState b, emit [EvRLock, EvRUnlock] b)"

text \<open>
  \<^verbatim>\<open>GetConnection\<close> is a parameter of \<^verbatim>\<open>getConn\<close>: any function of the snapshot and the
  health flags of the pool that returns a connection, or none, and a count of skips. The
  count is Go's \<^verbatim>\<open>int\<close>; it counts connections of one snapshot, so doubling it does not wrap.
\<close>

type_synonym selection = "connectionsState \<Rightarrow> Pool \<Rightarrow> Conn option \<times> nat"

text \<open>The deferred function of \<^verbatim>\<open>getConn\<close> (lines 320-324).\<close>

definition forceDiscovery :: "nat \<Rightarrow> connectionsState \<Rightarrow> Balancer \<Rightarrow> Balancer" where
  "forceDiscovery failedCount state b =
     (if failedCount * 2 > PreferredCount state \<and> discoveryRepeater b \<noteq> None
      then b\<lparr> discoveryRepeater := map_option Force (discoveryRepeater b) \<rparr>
      else b)"

text \<open>The result of \<^verbatim>\<open>getConn\<close> (lines 327-332).\<close>

definition connOrError :: "Conn option \<Rightarrow> nat \<Rightarrow> error + Conn" where
  "connOrError c failedCount =
     (case c of
        None \<Rightarrow> Inl (WithStackTrace (Errorf ErrNoEndpoints failedCount))
      | Some cc \<Rightarrow> Inr cc)"

definition getConn :: "selection \<Rightarrow> Ctx \<Rightarrow> Balancer \<Rightarrow> (error + Conn) \<times> Balancer" where
  "getConn sel ctx b =
     (case Err ctx of
        Some e \<Rightarrow> (Inl (WithStackTrace e), b)
      | None \<Rightarrow>
          (case connections b of
             (None, b1) \<Rightarrow> (Inl NilSnapshot, b1)
           | (Some state, b1) \<Rightarrow>
               (case sel state (pool b1) of
                  (c, failedCount) \<Rightarrow>
                    (connOrError c failedCount, forceDiscovery failedCount state b1))))"

text \<open>
  \<^verbatim>\<open>MustPessimizeEndpoint\<close> is a parameter of \<^verbatim>\<open>wrapCall\<close>: the classification of an error
  against the configured list of codes. The wrapped operation answers with an error or
  none, and the health flags may have changed while it ran.
\<close>

type_synonym pessimize = "error \<Rightarrow> code list \<Rightarrow> bool"

type_synonym operation = "Conn \<Rightarrow> Pool \<Rightarrow> error option \<times> Pool"

text \<open>The deferred function of \<^verbatim>\<open>wrapCall\<close> (lines 265-275), on the named result.\<close>

definition feedback :: "pessimize \<Rightarrow> Conn \<Rightarrow> error option \<Rightarrow> Balancer \<Rightarrow> Balancer" where
  "feedback must cc err b =
     (case err of
        None \<Rightarrow>
          if GetState (pool b) cc = Banned
          then emit [EvAllow cc] (b\<lparr> pool := Allow (pool b) cc \<rparr>)
          else b
      | Some e \<Rightarrow>
          if must e (ExcludeGRPCCodesForPessimization (driverConfig b))
          then emit [EvBan cc e] (b\<lparr> pool := Ban (pool b) cc \<rparr>)
          else b)"

definition runOperation :: "operation \<Rightarrow> Conn \<Rightarrow> Balancer \<Rightarrow> error option \<times> Balancer" where
  "runOperation f cc b =
     (case f cc (pool b) of (r, p') \<Rightarrow> (r, emit [EvOperation cc] (b\<lparr> pool := p' \<rparr>)))"

definition wrapCall ::
  "selection \<Rightarrow> pessimize \<Rightarrow> Ctx \<Rightarrow> operation \<Rightarrow> Balancer \<Rightarrow> error option \<times> Balancer" where
  "wrapCall sel must ctx f b =
     (case getConn sel ctx b of
        (Inl e, b1) \<Rightarrow> (Some (WithStackTrace e), b1)
      | (Inr cc, b1) \<Rightarrow>
          (case MetaErr ctx of
             Some e \<Rightarrow>
               (Some (WithStackTrace e), feedback must cc (Some (WithStackTrace e)) b1)
           | None \<Rightarrow>
               (case runOperation f cc b1 of
                  (Some e, b2) \<Rightarrow>
                    (let err = (if UseWrapping ctx then WithStackTrace e else e)
                     in (Some err, feedback must cc (Some err) b2))
                | (None, b2) \<Rightarrow> (None, feedback must cc None b2))))"

section \<open>A call that overlaps with publications\<close>

text \<open>
  What other goroutines may do to the snapshot pointer while a call is in flight: any
  number of publications, each the locked section of a discovery round.
\<close>

fun publishAll :: "(connectionsState \<times> Endpoint list) list \<Rightarrow> Balancer \<Rightarrow> Balancer" where
  "publishAll [] b = b"
| "publishAll ((state, endpointsInfo) # rounds) b =
     publishAll rounds (publish state endpointsInfo b)"

text \<open>
  \<^verbatim>\<open>getConn\<close> with what other goroutines do between its steps made explicit: \<open>other1\<close> runs
  after the snapshot pointer was copied under the read lock and before selection,
  \<open>other2\<close> after selection and before the deferred check. The steps themselves are those
  of \<open>getConn\<close>.
\<close>

definition getConnOverlapped ::
  "selection \<Rightarrow> Ctx \<Rightarrow> (Balancer \<Rightarrow> Balancer) \<Rightarrow> (Balancer \<Rightarrow> Balancer) \<Rightarrow> Balancer \<Rightarrow>
     (error + Conn) \<times> Balancer" where
  "getConnOverlapped sel ctx other1 other2 b =
     (case Err ctx of
        Some e \<Rightarrow> (Inl (WithStackTrace e), b)
      | None \<Rightarrow>
          (case connections b of
             (None, b1) \<Rightarrow> (Inl NilSnapshot, b1)
           | (Some state, b1) \<Rightarrow>
               (let b2 = other1 b1
                in case sel state (pool b2) of
                     (c, failedCount) \<Rightarrow>
                       (connOrError c failedCount,
                        forceDiscovery failedCount state (other2 b2)))))"

section \<open>Sequences of calls on one instance\<close>

text \<open>
  The entry points of a Balancer: \<^verbatim>\<open>Invoke\<close> and \<^verbatim>\<open>NewStream\<close> (both are \<^verbatim>\<open>wrapCall\<close> around
  an operation), \<^verbatim>\<open>OnUpdate\<close> and \<^verbatim>\<open>Close\<close>.
\<close>

datatype call = Call Ctx operation | Subscribe nat | CloseCall

fun runCalls :: "selection \<Rightarrow> pessimize \<Rightarrow> call list \<Rightarrow> Balancer \<Rightarrow> Balancer" where
  "runCalls sel must [] b = b"
| "runCalls sel must (Call ctx f # cs) b = runCalls sel must cs (snd (wrapCall sel must ctx f b))"
| "runCalls sel must (Subscribe f # cs) b = runCalls sel must cs (OnUpdate f b)"
| "runCalls sel must (CloseCall # cs) b = runCalls sel must cs (snd (Close b))"

text \<open>The events of a discovery attempt, and an instance that never made or asked for one.\<close>

fun discoveryEvent :: "event \<Rightarrow> bool" where
  "discoveryEvent EvDial = True"
| "discoveryEvent EvDiscover = True"
| "discoveryEvent EvDetect = True"
| "discoveryEvent (EvSetState s) = True"
| "discoveryEvent e = False"

definition noDiscovery :: "Balancer \<Rightarrow> bool" where
  "noDiscovery b = (discoveryRepeater b = None \<and> \<not> list_ex discoveryEvent (events b))"

text \<open>Whether one more out-of-band run was requested from the Repeater between two states.\<close>

definition forceRequested :: "Balancer \<Rightarrow> Balancer \<Rightarrow> bool" where
  "forceRequested b b' =
     (case (discoveryRepeater b, discoveryRepeater b') of
        (Some r, Some r') \<Rightarrow> forced r' = Suc (forced r)
      | _ \<Rightarrow> False)"

text \<open>The first failure of an attempt, in the order the collaborators are called.\<close>

definition attemptFailure :: "bool \<Rightarrow> attempt \<Rightarrow> error option" where
  "attemptFailure detectDC a =
     (case dial a of
        Some e \<Rightarrow> Some e
      | None \<Rightarrow>
          (case discover a of
             Inl e \<Rightarrow> Some e
           | Inr endpoints \<Rightarrow>
               if detectDC then (case detect a of Inl e \<Rightarrow> Some e | Inr dc \<Rightarrow> None)
               else None))"

text \<open>
  In \<^verbatim>\<open>wrapCall\<close>, once a connection is chosen: the error the call meets (of the metadata
  or of the operation) and the state in which the deferred function finds the Balancer.
\<close>

definition callError :: "Ctx \<Rightarrow> operation \<Rightarrow> Conn \<Rightarrow> Balancer \<Rightarrow> error option" where
  "callError ctx f cc b =
     (case MetaErr ctx of Some e \<Rightarrow> Some e | None \<Rightarrow> fst (runOperation f cc b))"

definition afterCall :: "Ctx \<Rightarrow> operation \<Rightarrow> Conn \<Rightarrow> Balancer \<Rightarrow> Balancer" where
  "afterCall ctx f cc b =
     (case MetaErr ctx of Some e \<Rightarrow> b | None \<Rightarrow> snd (runOperation f cc b))"

section \<open>A cluster of three endpoints\<close>

text \<open>
  Two endpoints in the caller's location and one elsewhere, fallback permitted, a
  Repeater running, one subscriber; both local connections are Banned.
\<close>

definition local1 :: Endpoint where
  "local1 = \<lparr> Address = ''l1:2135'', Location = ''dc1'' \<rparr>"

definition local2 :: Endpoint where
  "local2 = \<lparr> Address = ''l2:2135'', Location = ''dc1'' \<rparr>"

definition remote1 :: Endpoint where
  "remote1 = \<lparr> Address = ''r1:2135'', Location = ''dc2'' \<rparr>"

definition sameLocation :: PreferConnFunc where
  "sameLocation loc c = (Location c = loc)"

definition clusterBalancerConfig :: BalancerConfig where
  "clusterBalancerConfig =
     \<lparr> SingleConn = False, DetectlocalDC = True, AllowFalback = True,
       IsPreferConn = Some sameLocation \<rparr>"

definition clusterConfig :: DriverConfig where
  "clusterConfig =
     \<lparr> ConfigEndpoint = ''ydb:2135'', DialTimeout = 5,
       ConfigBalancer = Some clusterBalancerConfig,
       ExcludeGRPCCodesForPessimization = [8] \<rparr>"

definition clusterState :: connectionsState where
  "clusterState = newConnectionsState [local1, local2, remote1] (Some sameLocation) ''dc1'' True"

definition bannedLocals :: Pool where
  "bannedLocals = (\<lambda>a. Allowed)(''l1:2135'' := Banned, ''l2:2135'' := Banned)"

definition clusterBalancer :: Balancer where
  "clusterBalancer =
     \<lparr> driverConfig = clusterConfig, balancerConfig = clusterBalancerConfig,
       pool = bannedLocals, discoveryRepeater = Some (repeaterNew 60),
       connectionsState = Some clusterState, onDiscovery = [1], events = [] \<rparr>"

definition liveCtx :: Ctx where
  "liveCtx = \<lparr> Err = None, MetaErr = None, UseWrapping = True \<rparr>"

text \<open>A classification for the examples: transport failures but those of the listed codes.\<close>

definition transportButListed :: pessimize where
  "transportButListed e codes = (case cause e of Transport c \<Rightarrow> c \<notin> set codes | _ \<Rightarrow> False)"

definition failing :: "error \<Rightarrow> operation" where
  "failing e cc p = (Some e, p)"

definition succeeding :: operation where
  "succeeding cc p = (None, p)"

text \<open>Only the first local connection is Banned: half of the preferred tier.\<close>

definition bannedLocal1 :: Pool where
  "bannedLocal1 = (\<lambda>a. Allowed)(''l1:2135'' := Banned)"

definition halfBannedBalancer :: Balancer where
  "halfBannedBalancer = clusterBalancer\<lparr> pool := bannedLocal1 \<rparr>"

text \<open>No connection is Banned.\<close>

definition healthyBalancer :: Balancer where
  "healthyBalancer = clusterBalancer\<lparr> pool := (\<lambda>a. Allowed) \<rparr>"

text \<open>The same cluster when the fallback tier is not permitted.\<close>

definition strictState :: connectionsState where
  "strictState = newConnectionsState [local1, local2, remote1] (Some sameLocation) ''dc1'' False"

definition strictBalancer :: Balancer where
  "strictBalancer = clusterBalancer\<lparr> connectionsState := Some strictState \<rparr>"

text \<open>A context that is already cancelled, and one whose metadata cannot be attached.\<close>

definition doneCtx :: Ctx where
  "doneCtx = \<lparr> Err = Some Canceled, MetaErr = None, UseWrapping = True \<rparr>"

definition noMetaCtx :: Ctx where
  "noMetaCtx = \<lparr> Err = None, MetaErr = Some (Transport 16), UseWrapping = True \<rparr>"

text \<open>Answers of the collaborators to a discovery attempt.\<close>

definition goodAttempt :: attempt where
  "goodAttempt =
     \<lparr> dial = None, discover = Inr [local1, local2, remote1], detect = Inr ''dc1'',
       parentErr = None \<rparr>"

definition timeoutAttempt :: attempt where
  "timeoutAttempt = goodAttempt\<lparr> discover := Inl DeadlineExceeded \<rparr>"

definition canceledAttempt :: attempt where
  "canceledAttempt = goodAttempt\<lparr> discover := Inl Canceled, parentErr := Some Canceled \<rparr>"

definition refusedAttempt :: attempt where
  "refusedAttempt = goodAttempt\<lparr> dial := Some (Transport 14) \<rparr>"

text \<open>A driver in single-connection mode whose one connection is Banned.\<close>

definition singleBalancerConfig :: BalancerConfig where
  "singleBalancerConfig = emptyBalancerConfig\<lparr> SingleConn := True \<rparr>"

definition singleConfig :: DriverConfig where
  "singleConfig = clusterConfig\<lparr> ConfigBalancer := Some singleBalancerConfig \<rparr>"

definition bannedSingle :: Pool where
  "bannedSingle = (\<lambda>a. Allowed)(''ydb:2135'' := Banned)"

definition singleBalancer :: Balancer where
  "singleBalancer =
     \<lparr> driverConfig = singleConfig, balancerConfig = singleBalancerConfig,
       pool = bannedSingle, discoveryRepeater = None,
       connectionsState = Some (newConnectionsState [endpointNew ''ydb:2135''] None [] False),
       onDiscovery = [], events = [] \<rparr>"

text \<open>Another snapshot, published while a call is in flight.\<close>

definition otherState :: connectionsState where
  "otherState = newConnectionsState [remote1] None [] False"

section \<open>Basic facts\<close>

lemma emit_simps:
  "events (emit evs b) = events b @ evs"
  "pool (emit evs b) = pool b"
  "discoveryRepeater (emit evs b) = discoveryRepeater b"
  "connectionsState (emit evs b) = connectionsState b"
  "onDiscovery (emit evs b) = onDiscovery b"
  "driverConfig (emit evs b) = driverConfig b"
  "balancerConfig (emit evs b) = balancerConfig b"
  by (simp_all add: emit_def)

text \<open>Stack-trace augmentation does not change how an error is classified.\<close>

lemma Is_WithStackTrace_context:
  "Is (WithStackTrace e) [DeadlineExceeded, Canceled] = Is e [DeadlineExceeded, Canceled]"
  by (simp add: Is_def)

lemma endpointsToConnections_eq: "endpointsToConnections p es = es"
  by (induction es) (simp_all add: Get_def)

lemma allowConnections_events:
  "events (allowConnections cs b) = events b @ concat (map (\<lambda>c. [EvAllow c, EvTouch c]) cs)"
  by (induction cs arbitrary: b) (simp_all add: emit_simps)

lemma allowConnections_pool:
  "pool (allowConnections cs b) a = (if a \<in> Address ` set cs then Allowed else pool b a)"
  by (induction cs arbitrary: b) (auto simp: emit_simps Allow_def)

lemma allowConnections_pool_emit:
  "pool (allowConnections cs (emit evs b)) = pool (allowConnections cs b)"
  by (simp add: fun_eq_iff allowConnections_pool emit_simps)

lemma allowConnections_frame:
  "connectionsState (allowConnections cs b) = connectionsState b"
  "onDiscovery (allowConnections cs b) = onDiscovery b"
  "discoveryRepeater (allowConnections cs b) = discoveryRepeater b"
  "balancerConfig (allowConnections cs b) = balancerConfig b"
  "driverConfig (allowConnections cs b) = driverConfig b"
  by (induction cs arbitrary: b) (simp_all add: emit_simps)

lemma notifySubscribers_events:
  "events (notifySubscribers fs eps b) = events b @ map (\<lambda>f. EvNotify f eps) fs"
  by (induction fs arbitrary: b) (simp_all add: emit_simps)

lemma notifySubscribers_frame:
  "pool (notifySubscribers fs eps b) = pool b"
  "connectionsState (notifySubscribers fs eps b) = connectionsState b"
  "onDiscovery (notifySubscribers fs eps b) = onDiscovery b"
  "discoveryRepeater (notifySubscribers fs eps b) = discoveryRepeater b"
  "balancerConfig (notifySubscribers fs eps b) = balancerConfig b"
  "driverConfig (notifySubscribers fs eps b) = driverConfig b"
  by (induction fs arbitrary: b) (simp_all add: emit_simps)

lemma publish_events:
  "events (publish state eps b) =
     events b @ [EvLock, EvSetState state] @ map (\<lambda>f. EvNotify f eps) (onDiscovery b) @ [EvUnlock]"
  by (simp add: publish_def Let_def emit_simps notifySubscribers_events notifySubscribers_frame)

lemma publish_frame:
  "pool (publish state eps b) = pool b"
  "connectionsState (publish state eps b) = Some state"
  "onDiscovery (publish state eps b) = onDiscovery b"
  "discoveryRepeater (publish state eps b) = discoveryRepeater b"
  "balancerConfig (publish state eps b) = balancerConfig b"
  "driverConfig (publish state eps b) = driverConfig b"
  by (simp_all add: publish_def Let_def emit_simps notifySubscribers_frame)

lemma publishAll_frame:
  "pool (publishAll rounds b) = pool b"
  "discoveryRepeater (publishAll rounds b) = discoveryRepeater b"
  by (induction rounds arbitrary: b) (auto simp: publish_frame)

lemma publishAll_state:
  "connectionsState (publishAll rounds b) =
     (if rounds = [] then connectionsState b else Some (fst (last rounds)))"
  by (induction rounds arbitrary: b) (auto simp: publish_frame)

lemma forceDiscovery_frame:
  "events (forceDiscovery n s b) = events b"
  "pool (forceDiscovery n s b) = pool b"
  "connectionsState (forceDiscovery n s b) = connectionsState b"
  "onDiscovery (forceDiscovery n s b) = onDiscovery b"
  "driverConfig (forceDiscovery n s b) = driverConfig b"
  "balancerConfig (forceDiscovery n s b) = balancerConfig b"
  by (simp_all add: forceDiscovery_def)

lemma forceDiscovery_repeater:
  "discoveryRepeater (forceDiscovery n s b) =
     (if PreferredCount s < n * 2 then map_option Force (discoveryRepeater b)
      else discoveryRepeater b)"
  by (cases "discoveryRepeater b") (simp_all add: forceDiscovery_def)

lemma forceDiscovery_exact:
  "forceDiscovery n state b =
     b\<lparr> discoveryRepeater :=
          (case discoveryRepeater b of
             None \<Rightarrow> None
           | Some r \<Rightarrow> Some (if PreferredCount state < n * 2
                             then r\<lparr> forced := Suc (forced r) \<rparr> else r)) \<rparr>"
  by (cases "discoveryRepeater b") (simp_all add: forceDiscovery_def Force_def)

lemma forceRequested_forceDiscovery:
  "discoveryRepeater b0 = discoveryRepeater b \<Longrightarrow>
   forceRequested b (forceDiscovery n state b0) =
     (PreferredCount state < n * 2 \<and> discoveryRepeater b \<noteq> None)"
  by (auto simp: forceRequested_def forceDiscovery_def Force_def split: option.splits)

text \<open>
  The count of skips that \<open>GetConnection\<close> reports is bounded by the number of connections
  of the snapshot.
\<close>

lemma searchTier_count: "snd (searchTier p cs n) \<le> n + length cs"
proof (induction cs arbitrary: n)
  case Nil
  then show ?case by simp
next
  case (Cons c cs)
  from Cons.IH [of "Suc n"] show ?case by simp
qed

lemma GetConnection_count:
  "snd (GetConnection s p) \<le> length (preferConns s) + length (fallbackConns s)"
proof (cases "singleConn s")
  case (Some c)
  then show ?thesis by (simp add: GetConnection_def)
next
  case None
  obtain c n where pref: "searchTier p (preferConns s) 0 = (c, n)" by force
  from searchTier_count [of p "preferConns s" 0] pref
  have n: "n \<le> length (preferConns s)" by simp
  from searchTier_count [of p "fallbackConns s" n] n
  have "snd (searchTier p (fallbackConns s) n) \<le> length (preferConns s) + length (fallbackConns s)"
    by simp
  with None pref n show ?thesis
    by (cases c) (simp_all add: GetConnection_def)
qed

text \<open>\<^verbatim>\<open>getConn\<close> on a live context and a published snapshot.\<close>

lemma getConn_live:
  "Err ctx = None \<Longrightarrow> connectionsState b = Some state \<Longrightarrow>
   getConn sel ctx b =
     (connOrError (fst (sel state (pool b))) (snd (sel state (pool b))),
      forceDiscovery (snd (sel state (pool b))) state (emit [EvRLock, EvRUnlock] b))"
  by (simp add: getConn_def connections_def emit_simps split: prod.splits)

lemma getConn_quiet:
  "connectionsState (snd (getConn sel ctx b)) = connectionsState b"
  "pool (snd (getConn sel ctx b)) = pool b"
  "driverConfig (snd (getConn sel ctx b)) = driverConfig b"
  "discoveryRepeater b = None \<Longrightarrow> discoveryRepeater (snd (getConn sel ctx b)) = None"
  "list_ex discoveryEvent (events (snd (getConn sel ctx b))) = list_ex discoveryEvent (events b)"
  by (auto simp: getConn_def connections_def emit_simps forceDiscovery_frame
      forceDiscovery_repeater split: option.splits prod.splits)

lemma feedback_quiet:
  "connectionsState (feedback must cc err b) = connectionsState b"
  "discoveryRepeater (feedback must cc err b) = discoveryRepeater b"
  "list_ex discoveryEvent (events (feedback must cc err b)) = list_ex discoveryEvent (events b)"
  by (auto simp: feedback_def emit_simps split: option.splits)

lemma runOperation_quiet:
  "connectionsState (snd (runOperation f cc b)) = connectionsState b"
  "discoveryRepeater (snd (runOperation f cc b)) = discoveryRepeater b"
  "driverConfig (snd (runOperation f cc b)) = driverConfig b"
  "list_ex discoveryEvent (events (snd (runOperation f cc b))) = list_ex discoveryEvent (events b)"
  by (auto simp: runOperation_def emit_simps split: prod.splits)

text \<open>\<^verbatim>\<open>wrapCall\<close> once a connection is chosen: the deferred function sees the named result.\<close>

lemma wrapCall_chosen:
  "getConn sel ctx b = (Inr cc, b1) \<Longrightarrow>
   wrapCall sel must ctx f b =
     (case callError ctx f cc b1 of
        None \<Rightarrow> (None, feedback must cc None (afterCall ctx f cc b1))
      | Some e \<Rightarrow>
          (let err = (if MetaErr ctx = None \<and> \<not> UseWrapping ctx then e else WithStackTrace e)
           in (Some err, feedback must cc (Some err) (afterCall ctx f cc b1))))"
  by (auto simp: wrapCall_def callError_def afterCall_def Let_def split: option.splits prod.splits)

lemma wrapCall_snd:
  "snd (wrapCall sel must ctx f b) =
     (case fst (getConn sel ctx b) of
        Inl e \<Rightarrow> snd (getConn sel ctx b)
      | Inr cc \<Rightarrow>
          (case MetaErr ctx of
             Some e \<Rightarrow> feedback must cc (Some (WithStackTrace e)) (snd (getConn sel ctx b))
           | None \<Rightarrow>
               feedback must cc
                 (map_option (\<lambda>e. if UseWrapping ctx then WithStackTrace e else e)
                    (fst (runOperation f cc (snd (getConn sel ctx b)))))
                 (snd (runOperation f cc (snd (getConn sel ctx b))))))"
  by (auto simp: wrapCall_def Let_def split: prod.splits sum.splits option.splits)

lemma wrapCall_quiet:
  "connectionsState (snd (wrapCall sel must ctx f b)) = connectionsState b"
  "discoveryRepeater b = None \<Longrightarrow> discoveryRepeater (snd (wrapCall sel must ctx f b)) = None"
  "list_ex discoveryEvent (events (snd (wrapCall sel must ctx f b))) = list_ex discoveryEvent (events b)"
  by (simp_all add: wrapCall_snd feedback_quiet runOperation_quiet getConn_quiet
      split: sum.splits option.splits)

text \<open>No sequence of calls makes an instance without a Repeater discover or republish.\<close>

lemma runCalls_quiet:
  "noDiscovery b \<Longrightarrow>
   noDiscovery (runCalls sel must calls b)
   \<and> connectionsState (runCalls sel must calls b) = connectionsState b"
proof (induction calls arbitrary: b)
  case Nil
  then show ?case by simp
next
  case (Cons c calls)
  show ?case
  proof (cases c)
    case (Call ctx f)
    have "noDiscovery (snd (wrapCall sel must ctx f b))"
      using Cons.prems by (simp add: noDiscovery_def wrapCall_quiet)
    from Cons.IH [OF this] Call show ?thesis by (simp add: wrapCall_quiet)
  next
    case (Subscribe f)
    have "noDiscovery (OnUpdate f b)"
      using Cons.prems by (simp add: noDiscovery_def OnUpdate_def emit_simps)
    from Cons.IH [OF this] Subscribe show ?thesis by (simp add: OnUpdate_def emit_simps)
  next
    case CloseCall
    have "noDiscovery (snd (Close b))"
      using Cons.prems by (simp add: noDiscovery_def Close_def)
    from Cons.IH [OF this] CloseCall Cons.prems show ?thesis
      by (simp add: Close_def noDiscovery_def)
  qed
qed

lemma leaveAttempt_failure:
  "fst (leaveAttempt a client (Some (WithStackTrace e)) b) =
     (if parentErr a = None \<and> Is e [DeadlineExceeded, Canceled]
      then Some (WithStackTrace (Retryable (WithStackTrace e)))
      else Some (WithStackTrace e))"
  by (simp add: leaveAttempt_def markRetryable_def Is_WithStackTrace_context)

lemma leaveAttempt_success: "fst (leaveAttempt a client None b) = None"
  by (simp add: leaveAttempt_def markRetryable_def)

section \<open>The example cluster, evaluated\<close>

lemmas cluster_defs =
  clusterBalancer_def clusterState_def clusterConfig_def clusterBalancerConfig_def
  bannedLocals_def sameLocation_def local1_def local2_def remote1_def liveCtx_def
  newConnectionsState_def repeaterNew_def

lemma PreferredCount_clusterState: "PreferredCount clusterState = 2"
  by (simp add: PreferredCount_def cluster_defs)

lemma GetConnection_bannedLocals:
  "GetConnection clusterState bannedLocals = (Some remote1, 2)"
  by (simp add: GetConnection_def GetState_def cluster_defs)

lemma GetConnection_bannedLocal1:
  "GetConnection clusterState bannedLocal1 = (Some local2, 1)"
  by (simp add: GetConnection_def GetState_def bannedLocal1_def cluster_defs)

lemma GetConnection_healthy:
  "GetConnection clusterState (\<lambda>a. Allowed) = (Some local1, 0)"
  by (simp add: GetConnection_def GetState_def cluster_defs)

lemma GetConnection_strictState:
  "GetConnection strictState bannedLocals = (None, 2)"
  by (simp add: GetConnection_def GetState_def strictState_def cluster_defs)

lemma fst_getConn_clusterBalancer:
  "fst (getConn GetConnection liveCtx clusterBalancer) = Inr remote1"
  by (simp add: getConn_live [where state = clusterState] connOrError_def
      GetConnection_bannedLocals clusterBalancer_def liveCtx_def)

lemma getConn_clusterBalancer:
  "getConn GetConnection liveCtx clusterBalancer =
     (Inr remote1, snd (getConn GetConnection liveCtx clusterBalancer))"
  using fst_getConn_clusterBalancer by (simp add: prod_eq_iff)

lemma getConn_noMetaCtx:
  "getConn GetConnection noMetaCtx clusterBalancer =
     (Inr remote1, snd (getConn GetConnection noMetaCtx clusterBalancer))"
proof -
  have "fst (getConn GetConnection noMetaCtx clusterBalancer) = Inr remote1"
    by (simp add: getConn_live [where state = clusterState] connOrError_def
        GetConnection_bannedLocals clusterBalancer_def noMetaCtx_def)
  then show ?thesis by (simp add: prod_eq_iff)
qed

lemma getConn_singleBalancer:
  "getConn GetConnection liveCtx singleBalancer =
     (Inr (endpointNew ''ydb:2135''), snd (getConn GetConnection liveCtx singleBalancer))"
proof -
  have "fst (getConn GetConnection liveCtx singleBalancer) = Inr (endpointNew ''ydb:2135'')"
    by (simp add: getConn_live [where state = "newConnectionsState [endpointNew ''ydb:2135''] None [] False"]
        connOrError_def GetConnection_def newConnectionsState_def singleBalancer_def liveCtx_def)
  then show ?thesis by (simp add: prod_eq_iff)
qed

section \<open>Forced rediscovery\<close>

text \<open>
  Claim C1. In a call of \<^verbatim>\<open>getConn\<close> that reaches selection (the context is live and a
  snapshot is published), the Balancer is left as it was but for the record of the read
  lock and for the Repeater: when twice the number of skips that selection reports
  exceeds the preferred-tier size of the snapshot and the Repeater exists, exactly one
  out-of-band run is requested from it; in every other case (fewer skips, exactly half,
  or no Repeater) the Repeater is exactly as it was. This holds for every selection
  function.
\<close>

theorem getConn_force_iff:
  assumes "Err ctx = None" and "connectionsState b = Some state"
    and "sel state (pool b) = (c, failedCount)"
  shows "snd (getConn sel ctx b) =
           (emit [EvRLock, EvRUnlock] b)
             \<lparr> discoveryRepeater :=
                 (case discoveryRepeater b of
                    None \<Rightarrow> None
                  | Some r \<Rightarrow> Some (if PreferredCount state < failedCount * 2
                                    then r\<lparr> forced := Suc (forced r) \<rparr> else r)) \<rparr>
         \<and> forceRequested b (snd (getConn sel ctx b)) =
           (PreferredCount state < failedCount * 2 \<and> discoveryRepeater b \<noteq> None)
         \<and> (\<not> (PreferredCount state < failedCount * 2 \<and> discoveryRepeater b \<noteq> None) \<longrightarrow>
              discoveryRepeater (snd (getConn sel ctx b)) = discoveryRepeater b)
         \<and> (failedCount * 2 = PreferredCount state \<longrightarrow>
              discoveryRepeater (snd (getConn sel ctx b)) = discoveryRepeater b)"
proof -
  have result: "snd (getConn sel ctx b) =
                  forceDiscovery failedCount state (emit [EvRLock, EvRUnlock] b)"
    using assms by (simp add: getConn_live)
  have exact: "snd (getConn sel ctx b) =
           (emit [EvRLock, EvRUnlock] b)
             \<lparr> discoveryRepeater :=
                 (case discoveryRepeater b of
                    None \<Rightarrow> None
                  | Some r \<Rightarrow> Some (if PreferredCount state < failedCount * 2
                                    then r\<lparr> forced := Suc (forced r) \<rparr> else r)) \<rparr>"
    by (simp add: result forceDiscovery_exact emit_simps)
  have requested: "forceRequested b (snd (getConn sel ctx b)) =
           (PreferredCount state < failedCount * 2 \<and> discoveryRepeater b \<noteq> None)"
    by (simp add: result forceRequested_forceDiscovery emit_simps)
  have otherwise: "\<not> (PreferredCount state < failedCount * 2 \<and> discoveryRepeater b \<noteq> None) \<longrightarrow>
              discoveryRepeater (snd (getConn sel ctx b)) = discoveryRepeater b"
    by (auto simp: result forceDiscovery_repeater emit_simps)
  have half: "failedCount * 2 = PreferredCount state \<longrightarrow>
              discoveryRepeater (snd (getConn sel ctx b)) = discoveryRepeater b"
    by (simp add: result forceDiscovery_repeater emit_simps)
  from exact requested otherwise half show ?thesis by blast
qed

text \<open>
  With both local connections Banned, two skips against a preferred tier of two force
  one run and the remote connection is chosen; with one of them Banned, one skip is
  exactly half and nothing is forced; with none Banned nothing is forced; and without a
  Repeater there is none afterwards.
\<close>

theorem getConn_force_iff_witness:
  "fst (getConn GetConnection liveCtx clusterBalancer) = Inr remote1
   \<and> forceRequested clusterBalancer (snd (getConn GetConnection liveCtx clusterBalancer))
   \<and> discoveryRepeater (snd (getConn GetConnection liveCtx clusterBalancer))
       = Some \<lparr> interval = 60, stopped = False, forced = 1 \<rparr>
   \<and> GetConnection clusterState (pool halfBannedBalancer) = (Some local2, 1)
   \<and> \<not> forceRequested halfBannedBalancer (snd (getConn GetConnection liveCtx halfBannedBalancer))
   \<and> discoveryRepeater (snd (getConn GetConnection liveCtx halfBannedBalancer))
       = discoveryRepeater halfBannedBalancer
   \<and> GetConnection clusterState (pool healthyBalancer) = (Some local1, 0)
   \<and> discoveryRepeater (snd (getConn GetConnection liveCtx healthyBalancer))
       = Some \<lparr> interval = 60, stopped = False, forced = 0 \<rparr>
   \<and> discoveryRepeater (snd (getConn GetConnection liveCtx singleBalancer)) = None"
proof -
  have live: "Err liveCtx = None" by (simp add: liveCtx_def)
  have st: "connectionsState clusterBalancer = Some clusterState"
    by (simp add: clusterBalancer_def)
  have sel: "GetConnection clusterState (pool clusterBalancer) = (Some remote1, 2)"
    by (simp add: GetConnection_bannedLocals clusterBalancer_def)
  have rep: "discoveryRepeater clusterBalancer = Some (repeaterNew 60)"
    by (simp add: clusterBalancer_def)
  have st': "connectionsState halfBannedBalancer = Some clusterState"
    by (simp add: halfBannedBalancer_def clusterBalancer_def)
  have sel': "GetConnection clusterState (pool halfBannedBalancer) = (Some local2, 1)"
    by (simp add: GetConnection_bannedLocal1 halfBannedBalancer_def)
  have st'': "connectionsState healthyBalancer = Some clusterState"
    by (simp add: healthyBalancer_def clusterBalancer_def)
  have sel'': "GetConnection clusterState (pool healthyBalancer) = (Some local1, 0)"
    by (simp add: GetConnection_healthy healthyBalancer_def)
  have rep'': "discoveryRepeater healthyBalancer = Some (repeaterNew 60)"
    by (simp add: healthyBalancer_def clusterBalancer_def)
  have st1: "connectionsState singleBalancer
               = Some (newConnectionsState [endpointNew ''ydb:2135''] None [] False)"
    by (simp add: singleBalancer_def)
  have sel1: "GetConnection (newConnectionsState [endpointNew ''ydb:2135''] None [] False)
                (pool singleBalancer) = (Some (endpointNew ''ydb:2135''), 0)"
    by (simp add: GetConnection_def newConnectionsState_def)
  have rep1: "discoveryRepeater singleBalancer = None" by (simp add: singleBalancer_def)
  note all = getConn_force_iff [where sel = GetConnection, OF live st sel]
  note half = getConn_force_iff [where sel = GetConnection, OF live st' sel']
  note none = getConn_force_iff [where sel = GetConnection, OF live st'' sel'']
  note single = getConn_force_iff [where sel = GetConnection, OF live st1 sel1]
  from all [THEN conjunct1]
  have forced: "discoveryRepeater (snd (getConn GetConnection liveCtx clusterBalancer))
       = Some \<lparr> interval = 60, stopped = False, forced = 1 \<rparr>"
    by (simp add: rep repeaterNew_def PreferredCount_clusterState)
  from none [THEN conjunct1]
  have quiet: "discoveryRepeater (snd (getConn GetConnection liveCtx healthyBalancer))
       = Some \<lparr> interval = 60, stopped = False, forced = 0 \<rparr>"
    by (simp add: rep'' repeaterNew_def PreferredCount_clusterState)
  from single [THEN conjunct1]
  have nil: "discoveryRepeater (snd (getConn GetConnection liveCtx singleBalancer)) = None"
    by (simp add: rep1)
  from all [THEN conjunct2] half [THEN conjunct2] rep sel' sel'' fst_getConn_clusterBalancer
    forced quiet nil
  show ?thesis
    by (simp add: PreferredCount_clusterState)
qed

section \<open>Errors of selection\<close>

text \<open>
  Claim C5. When the caller's context is already done, \<^verbatim>\<open>getConn\<close> returns that context's
  error (with a stack trace) and leaves the Balancer as it found it: the snapshot is not
  read, nothing is selected and nothing is forced. When selection over the current
  snapshot yields no connection, the error returned wraps \<^verbatim>\<open>ErrNoEndpoints\<close> and carries
  the count of skips selection reported.
\<close>

theorem getConn_errors:
  "(Err ctx = Some e \<longrightarrow> getConn sel ctx b = (Inl (WithStackTrace e), b))
   \<and> (Err ctx = None \<and> connectionsState b = Some state \<and> sel state (pool b) = (None, n) \<longrightarrow>
        fst (getConn sel ctx b) = Inl (WithStackTrace (Errorf ErrNoEndpoints n))
        \<and> Is (WithStackTrace (Errorf ErrNoEndpoints n)) [ErrNoEndpoints])"
  by (simp add: getConn_live connOrError_def Is_def) (simp add: getConn_def)

theorem getConn_errors_witness:
  "getConn GetConnection doneCtx clusterBalancer = (Inl (WithStackTrace Canceled), clusterBalancer)
   \<and> fst (getConn GetConnection liveCtx strictBalancer)
       = Inl (WithStackTrace (Errorf ErrNoEndpoints 2))"
proof -
  have cancelled: "Err doneCtx = Some Canceled" by (simp add: doneCtx_def)
  have live: "Err liveCtx = None" by (simp add: liveCtx_def)
  have st: "connectionsState strictBalancer = Some strictState"
    by (simp add: strictBalancer_def)
  have sel: "GetConnection strictState (pool strictBalancer) = (None, 2)"
    by (simp add: GetConnection_strictState strictBalancer_def clusterBalancer_def)
  from getConn_errors [of doneCtx Canceled GetConnection clusterBalancer]
    getConn_errors [of liveCtx _ GetConnection strictBalancer strictState 2]
    cancelled live st sel
  show ?thesis by simp
qed

section \<open>Feedback of a call\<close>

text \<open>
  Claim C2. When a call fails after a connection was chosen, with the error \<open>e\<close> of the
  metadata or of the operation, \<^verbatim>\<open>wrapCall\<close> returns \<open>e\<close> itself or \<open>e\<close> under a stack trace.
  If \<^verbatim>\<open>MustPessimizeEndpoint\<close> accepts the returned error for the configured list of codes,
  the chosen connection is Banned in the pool (and nothing else is changed but the record
  of that call to the pool); otherwise the Balancer and the pool are left as the call
  found them, so the health of the connection is unchanged.
\<close>

theorem wrapCall_failure:
  assumes "getConn sel ctx b = (Inr cc, b1)" and "callError ctx f cc b1 = Some e"
  shows "\<exists>err b'. wrapCall sel must ctx f b = (Some err, b')
           \<and> (err = e \<or> err = WithStackTrace e)
           \<and> (if must err (ExcludeGRPCCodesForPessimization (driverConfig b1))
               then GetState (pool b') cc = Banned
                    \<and> b' = emit [EvBan cc err]
                              ((afterCall ctx f cc b1)\<lparr> pool := Ban (pool (afterCall ctx f cc b1)) cc \<rparr>)
               else b' = afterCall ctx f cc b1)"
proof -
  have cfg: "driverConfig (afterCall ctx f cc b1) = driverConfig b1"
    by (simp add: afterCall_def runOperation_quiet split: option.splits)
  show ?thesis
    using assms
    by (simp add: wrapCall_chosen Let_def feedback_def cfg emit_simps GetState_def Ban_def)
qed

text \<open>
  On the example cluster the remote connection is chosen. A transport failure of code 14
  bans it; a failure of the listed code 8 is returned as well and leaves it Allowed.
\<close>

theorem wrapCall_failure_witness:
  "fst (wrapCall GetConnection transportButListed liveCtx (failing (Transport 14)) clusterBalancer)
     = Some (WithStackTrace (Transport 14))
   \<and> GetState (pool (snd (wrapCall GetConnection transportButListed liveCtx
         (failing (Transport 14)) clusterBalancer))) remote1 = Banned
   \<and> fst (wrapCall GetConnection transportButListed liveCtx (failing (Transport 8)) clusterBalancer)
     = Some (WithStackTrace (Transport 8))
   \<and> GetState (pool (snd (wrapCall GetConnection transportButListed liveCtx
         (failing (Transport 8)) clusterBalancer))) remote1 = Allowed"
proof -
  let ?b1 = "snd (getConn GetConnection liveCtx clusterBalancer)"
  have meta: "MetaErr liveCtx = None" and wrap: "UseWrapping liveCtx"
    by (simp_all add: liveCtx_def)
  have err: "callError liveCtx (failing x) remote1 ?b1 = Some x" for x
    by (simp add: callError_def runOperation_def failing_def meta)
  have after: "pool (afterCall liveCtx (failing x) remote1 ?b1) = bannedLocals" for x
    by (simp add: afterCall_def runOperation_def failing_def meta emit_simps getConn_quiet
        clusterBalancer_def)
  have codes: "ExcludeGRPCCodesForPessimization (driverConfig ?b1) = [8]"
    by (simp add: getConn_quiet clusterBalancer_def clusterConfig_def)
  have fst: "fst (wrapCall GetConnection transportButListed liveCtx (failing x) clusterBalancer)
               = Some (WithStackTrace x)" for x
    by (simp add: wrapCall_chosen [OF getConn_clusterBalancer] err Let_def meta wrap)
  from wrapCall_failure [OF getConn_clusterBalancer err [of "Transport 14"],
      of transportButListed]
  have banned: "GetState (pool (snd (wrapCall GetConnection transportButListed liveCtx
         (failing (Transport 14)) clusterBalancer))) remote1 = Banned"
    by (auto simp: codes transportButListed_def split: if_splits)
  from wrapCall_failure [OF getConn_clusterBalancer err [of "Transport 8"],
      of transportButListed]
  have "pool (snd (wrapCall GetConnection transportButListed liveCtx
         (failing (Transport 8)) clusterBalancer)) = bannedLocals"
    by (auto simp: codes transportButListed_def after split: if_splits)
  then have allowed: "GetState (pool (snd (wrapCall GetConnection transportButListed liveCtx
         (failing (Transport 8)) clusterBalancer))) remote1 = Allowed"
    by (simp add: GetState_def bannedLocals_def remote1_def)
  from fst banned allowed show ?thesis by simp
qed

text \<open>
  Claim C6. When the metadata is attached and the operation returns no error,
  \<^verbatim>\<open>wrapCall\<close> returns no error; if the chosen connection is Banned when the operation
  has returned, it is set to Allowed in the pool, and if it is Allowed, the Balancer and
  the pool are left as the operation left them.
\<close>

theorem wrapCall_success:
  assumes "getConn sel ctx b = (Inr cc, b1)" and "MetaErr ctx = None"
    and "runOperation f cc b1 = (None, b2)"
  shows "wrapCall sel must ctx f b =
           (None,
            if GetState (pool b2) cc = Banned
            then emit [EvAllow cc] (b2\<lparr> pool := Allow (pool b2) cc \<rparr>)
            else b2)
         \<and> GetState (pool (snd (wrapCall sel must ctx f b))) cc = Allowed"
  using assms
  by (cases "GetState (pool b2) cc")
     (simp_all add: wrapCall_def feedback_def emit_simps GetState_def Allow_def)

text \<open>
  In single-connection mode the one connection is chosen although it is Banned; a call
  that succeeds on it makes it Allowed again.
\<close>

theorem wrapCall_success_witness:
  "GetState (pool singleBalancer) (endpointNew ''ydb:2135'') = Banned
   \<and> fst (wrapCall GetConnection transportButListed liveCtx succeeding singleBalancer) = None
   \<and> GetState (pool (snd (wrapCall GetConnection transportButListed liveCtx succeeding
         singleBalancer))) (endpointNew ''ydb:2135'') = Allowed"
proof -
  let ?b1 = "snd (getConn GetConnection liveCtx singleBalancer)"
  have meta: "MetaErr liveCtx = None" by (simp add: liveCtx_def)
  have run: "runOperation succeeding (endpointNew ''ydb:2135'') ?b1 =
               (None, snd (runOperation succeeding (endpointNew ''ydb:2135'') ?b1))"
    by (simp add: runOperation_def succeeding_def)
  have banned: "GetState (pool singleBalancer) (endpointNew ''ydb:2135'') = Banned"
    by (simp add: GetState_def singleBalancer_def bannedSingle_def endpointNew_def)
  note call = wrapCall_success [OF getConn_singleBalancer meta run, of transportButListed]
  from call [THEN conjunct1]
  have "fst (wrapCall GetConnection transportButListed liveCtx succeeding singleBalancer) = None"
    by simp
  with call [THEN conjunct2] banned show ?thesis by simp
qed

text \<open>
  Claim C10. When attaching the metadata fails after a connection was chosen, \<^verbatim>\<open>wrapCall\<close>
  returns the metadata's error under a stack trace whatever the operation is, the
  operation is not invoked, and the error goes through the classification: if it is
  accepted, the chosen connection is Banned.
\<close>

theorem wrapCall_metadata_failure:
  assumes "getConn sel ctx b = (Inr cc, b1)" and "MetaErr ctx = Some e"
  shows "wrapCall sel must ctx f b =
           (Some (WithStackTrace e),
            if must (WithStackTrace e) (ExcludeGRPCCodesForPessimization (driverConfig b1))
            then emit [EvBan cc (WithStackTrace e)] (b1\<lparr> pool := Ban (pool b1) cc \<rparr>)
            else b1)
         \<and> (must (WithStackTrace e) (ExcludeGRPCCodesForPessimization (driverConfig b1)) \<longrightarrow>
              GetState (pool (snd (wrapCall sel must ctx f b))) cc = Banned)
         \<and> \<not> list_ex (\<lambda>ev. ev = EvOperation cc)
               (drop (length (events b1)) (events (snd (wrapCall sel must ctx f b))))"
  using assms
  by (simp add: wrapCall_def feedback_def emit_simps GetState_def Ban_def)

theorem wrapCall_metadata_failure_witness:
  "GetState (pool clusterBalancer) remote1 = Allowed
   \<and> fst (wrapCall GetConnection transportButListed noMetaCtx succeeding clusterBalancer)
       = Some (WithStackTrace (Transport 16))
   \<and> GetState (pool (snd (wrapCall GetConnection transportButListed noMetaCtx succeeding
         clusterBalancer))) remote1 = Banned"
proof -
  let ?b1 = "snd (getConn GetConnection noMetaCtx clusterBalancer)"
  have meta: "MetaErr noMetaCtx = Some (Transport 16)" by (simp add: noMetaCtx_def)
  have codes: "ExcludeGRPCCodesForPessimization (driverConfig ?b1) = [8]"
    by (simp add: getConn_quiet clusterBalancer_def clusterConfig_def)
  have allowed: "GetState (pool clusterBalancer) remote1 = Allowed"
    by (simp add: GetState_def clusterBalancer_def bannedLocals_def remote1_def)
  have must: "transportButListed (WithStackTrace (Transport 16))
                (ExcludeGRPCCodesForPessimization (driverConfig ?b1))"
    by (simp add: codes transportButListed_def)
  note call = wrapCall_metadata_failure [OF getConn_noMetaCtx meta,
      of transportButListed succeeding]
  from call [THEN conjunct1]
  have "fst (wrapCall GetConnection transportButListed noMetaCtx succeeding clusterBalancer)
          = Some (WithStackTrace (Transport 16))"
    by simp
  with call [THEN conjunct2, THEN conjunct1] must allowed show ?thesis by simp
qed

section \<open>Discovery attempts\<close>

text \<open>The error of an attempt, in closed form.\<close>

lemma clusterDiscoveryAttempt_fst:
  "fst (clusterDiscoveryAttempt a b) =
     (case attemptFailure (DetectlocalDC (balancerConfig b)) a of
        None \<Rightarrow> None
      | Some e \<Rightarrow>
          if parentErr a = None \<and> Is e [DeadlineExceeded, Canceled]
          then Some (WithStackTrace (Retryable (WithStackTrace e)))
          else Some (WithStackTrace e))"
proof (cases "dial a")
  case (Some e)
  then show ?thesis
    by (simp add: clusterDiscoveryAttempt_def attemptFailure_def Let_def leaveAttempt_failure)
next
  case None
  note dialed = None
  show ?thesis
  proof (cases "discover a")
    case (Inl e)
    with dialed show ?thesis
      by (simp add: clusterDiscoveryAttempt_def attemptFailure_def Let_def leaveAttempt_failure)
  next
    case (Inr endpoints)
    note discovered = Inr
    show ?thesis
    proof (cases "DetectlocalDC (balancerConfig b)")
      case False
      with dialed discovered show ?thesis
        by (simp add: clusterDiscoveryAttempt_def attemptFailure_def Let_def
            leaveAttempt_success emit_simps)
    next
      case True
      note detecting = True
      show ?thesis
      proof (cases "detect a")
        case (Inl e)
        with dialed discovered detecting show ?thesis
          by (simp add: clusterDiscoveryAttempt_def attemptFailure_def Let_def
              leaveAttempt_failure emit_simps)
      next
        case (Inr dc)
        with dialed discovered detecting show ?thesis
          by (simp add: clusterDiscoveryAttempt_def attemptFailure_def Let_def
              leaveAttempt_success emit_simps)
      qed
    qed
  qed
qed

text \<open>
  Claim C3. A discovery attempt fails with the first failure \<open>e\<close> of its collaborators,
  all called on the child context, and succeeds when there is none. The error it returns
  is \<open>e\<close> under a stack trace, tagged retryable exactly when the parent context is still
  live (\<^verbatim>\<open>ctx.Err()\<close> is nil) and \<open>e\<close> is a deadline-exceeded or cancellation error of a
  context; in every other case it is \<open>e\<close> under a stack trace and no tag is added. So the
  returned error has the cause of \<open>e\<close>, and it is retryable exactly when \<open>e\<close> already was
  or the tag was added.
\<close>

theorem clusterDiscoveryAttempt_error:
  "fst (clusterDiscoveryAttempt a b) =
     (case attemptFailure (DetectlocalDC (balancerConfig b)) a of
        None \<Rightarrow> None
      | Some e \<Rightarrow>
          if parentErr a = None \<and> Is e [DeadlineExceeded, Canceled]
          then Some (WithStackTrace (Retryable (WithStackTrace e)))
          else Some (WithStackTrace e))
   \<and> (case fst (clusterDiscoveryAttempt a b) of
         None \<Rightarrow> attemptFailure (DetectlocalDC (balancerConfig b)) a = None
       | Some err \<Rightarrow>
           (case attemptFailure (DetectlocalDC (balancerConfig b)) a of
              None \<Rightarrow> False
            | Some e \<Rightarrow>
                cause err = cause e
                \<and> retryable err =
                    (retryable e \<or> parentErr a = None \<and> Is e [DeadlineExceeded, Canceled])))"
  using clusterDiscoveryAttempt_fst [of a b]
  by (auto split: option.splits)

text \<open>
  A deadline on the child context with the parent live is tagged; a cancellation with
  the parent cancelled is not, nor is a transport failure of the dial.
\<close>

theorem clusterDiscoveryAttempt_error_witness:
  "fst (clusterDiscoveryAttempt timeoutAttempt clusterBalancer)
     = Some (WithStackTrace (Retryable (WithStackTrace DeadlineExceeded)))
   \<and> fst (clusterDiscoveryAttempt canceledAttempt clusterBalancer)
     = Some (WithStackTrace Canceled)
   \<and> fst (clusterDiscoveryAttempt refusedAttempt clusterBalancer)
     = Some (WithStackTrace (Transport 14))
   \<and> fst (clusterDiscoveryAttempt goodAttempt clusterBalancer) = None"
  using clusterDiscoveryAttempt_error [of timeoutAttempt clusterBalancer]
    clusterDiscoveryAttempt_error [of canceledAttempt clusterBalancer]
    clusterDiscoveryAttempt_error [of refusedAttempt clusterBalancer]
    clusterDiscoveryAttempt_error [of goodAttempt clusterBalancer]
  by (simp add: attemptFailure_def timeoutAttempt_def canceledAttempt_def refusedAttempt_def
      goodAttempt_def Is_def)

section \<open>Publication of a discovery round\<close>

text \<open>
  A discovery attempt whose collaborators all answer runs \<^verbatim>\<open>applyDiscoveredEndpoints\<close> on
  the discovered endpoints and the detected location, and returns no error.
\<close>

lemma clusterDiscoveryAttempt_success:
  assumes "dial a = None" and "discover a = Inr endpoints"
    and "if DetectlocalDC (balancerConfig b) then detect a = Inr localDC else localDC = []"
  shows "clusterDiscoveryAttempt a b =
           (None,
            emit [EvClientClose, EvCancel]
              (applyDiscoveredEndpoints endpoints localDC
                 (emit ([if DialTimeout (driverConfig b) > 0
                         then EvWithTimeout (DialTimeout (driverConfig b)) else EvWithCancel,
                         EvDial, EvDiscover]
                        @ (if DetectlocalDC (balancerConfig b) then [EvDetect] else [])) b)))"
  using assms
  by (auto simp: clusterDiscoveryAttempt_def Let_def leaveAttempt_def markRetryable_def
      emit_def split: if_splits)

lemma Retry_first_success:
  "fst (operation a b) = None \<Longrightarrow> Retry operation a as b = operation a b"
  by (cases as; cases "operation a b") auto

lemma clusterDiscovery_first_success:
  "fst (clusterDiscoveryAttempt a b) = None \<Longrightarrow>
   clusterDiscovery a as b = clusterDiscoveryAttempt a b"
proof -
  assume ok: "fst (clusterDiscoveryAttempt a b) = None"
  then have w: "withStackTrace (clusterDiscoveryAttempt a b) = clusterDiscoveryAttempt a b"
    by (cases "clusterDiscoveryAttempt a b") (simp add: withStackTrace_def)
  with ok have "Retry (\<lambda>a b. withStackTrace (clusterDiscoveryAttempt a b)) a as b
                  = clusterDiscoveryAttempt a b"
    by (simp add: Retry_first_success)
  with w show ?thesis by (simp add: clusterDiscovery_def)
qed

text \<open>
  Claim C4. \<^verbatim>\<open>applyDiscoveredEndpoints\<close> makes its calls in this order: for every
  connection resolved from the endpoint list, \<^verbatim>\<open>Allow\<close> on the pool and \<^verbatim>\<open>Touch\<close> on its
  endpoint; then \<^verbatim>\<open>Lock\<close>, the swap of the snapshot pointer, one call of every registered
  subscriber with the endpoint list, in the order of registration, and \<^verbatim>\<open>Unlock\<close>. At
  the end every resolved connection is Allowed in the pool (the health flags are those
  left by the first loop), the snapshot is the one built from the resolved connections,
  and the subscribers are as before. Every successful discovery round does exactly this:
  a \<^verbatim>\<open>clusterDiscoveryAttempt\<close> whose dial, \<^verbatim>\<open>Discover\<close> and (when enabled) locality
  detection succeed returns no error and makes these calls, on the discovered endpoints
  and the detected location, between its calls to the collaborators and its deferred
  \<^verbatim>\<open>client.Close\<close> and \<^verbatim>\<open>cancel\<close>; and \<^verbatim>\<open>clusterDiscovery\<close>, the round under the Retry
  Policy, is that attempt when its first attempt succeeds.
\<close>

theorem discovery_round_trace:
  "(let conns = endpointsToConnections (pool b) endpoints;
        state = newConnectionsState conns (IsPreferConn (balancerConfig b)) localDC
                  (AllowFalback (balancerConfig b));
        b' = applyDiscoveredEndpoints endpoints localDC b
    in events b' =
         events b @ concat (map (\<lambda>c. [EvAllow c, EvTouch c]) conns)
                  @ [EvLock, EvSetState state]
                  @ map (\<lambda>f. EvNotify f endpoints) (onDiscovery b)
                  @ [EvUnlock]
       \<and> list_all (\<lambda>c. GetState (pool b') c = Allowed) conns
       \<and> pool b' = pool (allowConnections conns b)
       \<and> connectionsState b' = Some state
       \<and> onDiscovery b' = onDiscovery b)
   \<and> (dial a = None \<and> discover a = Inr endpoints
        \<and> (if DetectlocalDC (balancerConfig b) then detect a = Inr localDC else localDC = []) \<longrightarrow>
      (let conns = endpointsToConnections (pool b) endpoints;
           state = newConnectionsState conns (IsPreferConn (balancerConfig b)) localDC
                     (AllowFalback (balancerConfig b));
           b' = snd (clusterDiscoveryAttempt a b)
       in fst (clusterDiscoveryAttempt a b) = None
          \<and> clusterDiscovery a as b = clusterDiscoveryAttempt a b
          \<and> events b' =
               events b
               @ [if DialTimeout (driverConfig b) > 0
                  then EvWithTimeout (DialTimeout (driverConfig b)) else EvWithCancel,
                  EvDial, EvDiscover]
               @ (if DetectlocalDC (balancerConfig b) then [EvDetect] else [])
               @ concat (map (\<lambda>c. [EvAllow c, EvTouch c]) conns)
               @ [EvLock, EvSetState state]
               @ map (\<lambda>f. EvNotify f endpoints) (onDiscovery b)
               @ [EvUnlock, EvClientClose, EvCancel]
          \<and> list_all (\<lambda>c. GetState (pool b') c = Allowed) conns
          \<and> pool b' = pool (allowConnections conns b)
          \<and> connectionsState b' = Some state
          \<and> onDiscovery b' = onDiscovery b
          \<and> discoveryRepeater b' = discoveryRepeater b))"
proof -
  have direct: "(let conns = endpointsToConnections (pool b) endpoints;
        state = newConnectionsState conns (IsPreferConn (balancerConfig b)) localDC
                  (AllowFalback (balancerConfig b));
        b' = applyDiscoveredEndpoints endpoints localDC b
    in events b' =
         events b @ concat (map (\<lambda>c. [EvAllow c, EvTouch c]) conns)
                  @ [EvLock, EvSetState state]
                  @ map (\<lambda>f. EvNotify f endpoints) (onDiscovery b)
                  @ [EvUnlock]
       \<and> list_all (\<lambda>c. GetState (pool b') c = Allowed) conns
       \<and> pool b' = pool (allowConnections conns b)
       \<and> connectionsState b' = Some state
       \<and> onDiscovery b' = onDiscovery b)"
    by (simp add: applyDiscoveredEndpoints_def Let_def publish_events publish_frame
        allowConnections_events allowConnections_frame allowConnections_pool
        GetState_def list_all_iff)
  have round: "(let conns = endpointsToConnections (pool b) endpoints;
           state = newConnectionsState conns (IsPreferConn (balancerConfig b)) localDC
                     (AllowFalback (balancerConfig b));
           b' = snd (clusterDiscoveryAttempt a b)
       in fst (clusterDiscoveryAttempt a b) = None
          \<and> clusterDiscovery a as b = clusterDiscoveryAttempt a b
          \<and> events b' =
               events b
               @ [if DialTimeout (driverConfig b) > 0
                  then EvWithTimeout (DialTimeout (driverConfig b)) else EvWithCancel,
                  EvDial, EvDiscover]
               @ (if DetectlocalDC (balancerConfig b) then [EvDetect] else [])
               @ concat (map (\<lambda>c. [EvAllow c, EvTouch c]) conns)
               @ [EvLock, EvSetState state]
               @ map (\<lambda>f. EvNotify f endpoints) (onDiscovery b)
               @ [EvUnlock, EvClientClose, EvCancel]
          \<and> list_all (\<lambda>c. GetState (pool b') c = Allowed) conns
          \<and> pool b' = pool (allowConnections conns b)
          \<and> connectionsState b' = Some state
          \<and> onDiscovery b' = onDiscovery b
          \<and> discoveryRepeater b' = discoveryRepeater b)"
    if ok: "dial a = None" "discover a = Inr endpoints"
      "if DetectlocalDC (balancerConfig b) then detect a = Inr localDC else localDC = []"
  proof -
    note run = clusterDiscoveryAttempt_success [OF ok]
    have first: "fst (clusterDiscoveryAttempt a b) = None" by (simp add: run)
    show ?thesis
      by (simp add: clusterDiscovery_first_success [OF first])
         (simp add: run applyDiscoveredEndpoints_def Let_def publish_events publish_frame
          allowConnections_events allowConnections_frame allowConnections_pool
          allowConnections_pool_emit emit_simps GetState_def list_all_iff)
  qed
  from direct round show ?thesis by blast
qed

text \<open>
  Rediscovery of the example cluster allows the two Banned connections again, called
  directly and as a whole discovery attempt.
\<close>

theorem discovery_round_trace_witness:
  "GetState (pool clusterBalancer) local1 = Banned
   \<and> GetState (pool (applyDiscoveredEndpoints [local1, local2, remote1] ''dc1'' clusterBalancer))
       local1 = Allowed
   \<and> events (applyDiscoveredEndpoints [local1, local2, remote1] ''dc1'' clusterBalancer) =
       [EvAllow local1, EvTouch local1, EvAllow local2, EvTouch local2,
        EvAllow remote1, EvTouch remote1,
        EvLock, EvSetState clusterState, EvNotify 1 [local1, local2, remote1], EvUnlock]
   \<and> fst (clusterDiscoveryAttempt goodAttempt clusterBalancer) = None
   \<and> events (snd (clusterDiscoveryAttempt goodAttempt clusterBalancer)) =
       [EvWithTimeout 5, EvDial, EvDiscover, EvDetect,
        EvAllow local1, EvTouch local1, EvAllow local2, EvTouch local2,
        EvAllow remote1, EvTouch remote1,
        EvLock, EvSetState clusterState, EvNotify 1 [local1, local2, remote1], EvUnlock,
        EvClientClose, EvCancel]
   \<and> GetState (pool (snd (clusterDiscoveryAttempt goodAttempt clusterBalancer))) local1 = Allowed
   \<and> GetState (pool (snd (clusterDiscoveryAttempt goodAttempt clusterBalancer))) local2 = Allowed
   \<and> connectionsState (snd (clusterDiscoveryAttempt goodAttempt clusterBalancer))
       = Some clusterState"
proof -
  have banned: "GetState (pool clusterBalancer) local1 = Banned"
    by (simp add: GetState_def clusterBalancer_def bannedLocals_def local1_def)
  have conns: "endpointsToConnections (pool clusterBalancer) [local1, local2, remote1]
                 = [local1, local2, remote1]"
    by (rule endpointsToConnections_eq)
  have state: "newConnectionsState [local1, local2, remote1]
                 (IsPreferConn (balancerConfig clusterBalancer)) ''dc1''
                 (AllowFalback (balancerConfig clusterBalancer)) = clusterState"
    by (simp add: clusterBalancer_def clusterBalancerConfig_def clusterState_def)
  have start: "events clusterBalancer = []" "onDiscovery clusterBalancer = [1]"
    by (simp_all add: clusterBalancer_def)
  have config: "DetectlocalDC (balancerConfig clusterBalancer)"
    "DialTimeout (driverConfig clusterBalancer) = 5"
    by (simp_all add: clusterBalancer_def clusterBalancerConfig_def clusterConfig_def)
  have answers: "dial goodAttempt = None \<and> discover goodAttempt = Inr [local1, local2, remote1]
      \<and> (if DetectlocalDC (balancerConfig clusterBalancer)
          then detect goodAttempt = Inr ''dc1'' else ''dc1'' = [])"
    by (simp add: goodAttempt_def config)
  note both = discovery_round_trace
    [of clusterBalancer "[local1, local2, remote1]" "''dc1''" goodAttempt "[]",
     unfolded Let_def conns state start]
  note direct = both [THEN conjunct1]
  note round = both [THEN conjunct2, rule_format, OF answers]
  from direct [THEN conjunct1] direct [THEN conjunct2, THEN conjunct1] banned
  have first: "GetState (pool (applyDiscoveredEndpoints [local1, local2, remote1] ''dc1''
                  clusterBalancer)) local1 = Allowed
      \<and> events (applyDiscoveredEndpoints [local1, local2, remote1] ''dc1'' clusterBalancer) =
       [EvAllow local1, EvTouch local1, EvAllow local2, EvTouch local2,
        EvAllow remote1, EvTouch remote1,
        EvLock, EvSetState clusterState, EvNotify 1 [local1, local2, remote1], EvUnlock]"
    by simp
  from round [THEN conjunct1]
    round [THEN conjunct2, THEN conjunct2, THEN conjunct1]
    round [THEN conjunct2, THEN conjunct2, THEN conjunct2, THEN conjunct1]
    round [THEN conjunct2, THEN conjunct2, THEN conjunct2, THEN conjunct2, THEN conjunct2,
      THEN conjunct1]
  have second: "fst (clusterDiscoveryAttempt goodAttempt clusterBalancer) = None
   \<and> events (snd (clusterDiscoveryAttempt goodAttempt clusterBalancer)) =
       [EvWithTimeout 5, EvDial, EvDiscover, EvDetect,
        EvAllow local1, EvTouch local1, EvAllow local2, EvTouch local2,
        EvAllow remote1, EvTouch remote1,
        EvLock, EvSetState clusterState, EvNotify 1 [local1, local2, remote1], EvUnlock,
        EvClientClose, EvCancel]
   \<and> GetState (pool (snd (clusterDiscoveryAttempt goodAttempt clusterBalancer))) local1 = Allowed
   \<and> GetState (pool (snd (clusterDiscoveryAttempt goodAttempt clusterBalancer))) local2 = Allowed
   \<and> connectionsState (snd (clusterDiscoveryAttempt goodAttempt clusterBalancer))
       = Some clusterState"
    by (simp add: config)
  from banned first second show ?thesis by simp
qed

section \<open>Close\<close>

text \<open>
  Claim C8. \<^verbatim>\<open>Close\<close> returns no error and changes nothing but the Repeater, which it
  stops: the pool, the snapshot, the subscribers and the record of calls are as before.
  Without a Repeater the Balancer is left as it was, and closing twice is closing once.
\<close>

theorem Close_frame:
  "fst (Close b) = None
   \<and> snd (Close b) = b\<lparr> discoveryRepeater := map_option Stop (discoveryRepeater b) \<rparr>
   \<and> pool (snd (Close b)) = pool b
   \<and> connectionsState (snd (Close b)) = connectionsState b
   \<and> onDiscovery (snd (Close b)) = onDiscovery b
   \<and> events (snd (Close b)) = events b
   \<and> (case discoveryRepeater b of
         None \<Rightarrow> snd (Close b) = b
       | Some r \<Rightarrow> discoveryRepeater (snd (Close b)) = Some (r\<lparr> stopped := True \<rparr>))
   \<and> Close (snd (Close b)) = Close b"
  by (cases "discoveryRepeater b") (simp_all add: Close_def Stop_def)

theorem Close_frame_witness:
  "discoveryRepeater (snd (Close clusterBalancer))
     = Some \<lparr> interval = 60, stopped = True, forced = 0 \<rparr>
   \<and> connectionsState (snd (Close clusterBalancer)) = Some clusterState
   \<and> onDiscovery (snd (Close clusterBalancer)) = [1]
   \<and> snd (Close singleBalancer) = singleBalancer"
  using Close_frame [of clusterBalancer] Close_frame [of singleBalancer]
  by (simp add: clusterBalancer_def singleBalancer_def repeaterNew_def Stop_def)

section \<open>One snapshot per call\<close>

text \<open>
  Claim C9. A call of \<^verbatim>\<open>getConn\<close> on a live context takes the read lock once, copies the
  snapshot pointer, and computes both its result and the forced-rediscovery check from
  that snapshot. When other goroutines publish snapshots, any number of them, after the
  copy and again after selection, the call returns what it returns without them and
  requests a forced run exactly when it does without them, although the current snapshot
  is then the one published last.
\<close>

theorem getConn_one_snapshot:
  assumes "Err ctx = None" and "connectionsState b = Some state"
  shows "fst (getConnOverlapped sel ctx (publishAll rounds1) (publishAll rounds2) b)
           = fst (getConn sel ctx b)
         \<and> discoveryRepeater (snd (getConnOverlapped sel ctx (publishAll rounds1) (publishAll rounds2) b))
           = discoveryRepeater (snd (getConn sel ctx b))
         \<and> connectionsState (snd (getConnOverlapped sel ctx (publishAll rounds1) (publishAll rounds2) b))
           = (if rounds1 @ rounds2 = [] then Some state
              else Some (fst (last (rounds1 @ rounds2))))
         \<and> fst (getConn sel ctx b)
           = connOrError (fst (sel state (pool b))) (snd (sel state (pool b)))
         \<and> snd (getConn sel ctx b)
           = forceDiscovery (snd (sel state (pool b))) state (emit [EvRLock, EvRUnlock] b)
         \<and> events (snd (getConn sel ctx b)) = events b @ [EvRLock, EvRUnlock]"
proof -
  let ?b1 = "emit [EvRLock, EvRUnlock] b"
  have state: "connectionsState (publishAll rounds2 (publishAll rounds1 ?b1)) =
                 (if rounds1 @ rounds2 = [] then Some state
                  else Some (fst (last (rounds1 @ rounds2))))"
    using assms(2) by (simp add: publishAll_state emit_simps)
  show ?thesis
    using assms state
    by (simp add: getConn_live getConnOverlapped_def connections_def emit_simps publishAll_frame
        forceDiscovery_frame forceDiscovery_repeater Let_def split: prod.splits)
qed

text \<open>
  On the example cluster three snapshots are published during the call, the last of them
  holding the remote connection alone: the call still skips the two Banned local
  connections of its own snapshot, chooses the remote one and forces a run.
\<close>

theorem getConn_one_snapshot_witness:
  "fst (getConnOverlapped GetConnection liveCtx (publishAll [(otherState, [remote1])])
          (publishAll [(strictState, [local1, local2, remote1]), (otherState, [remote1])])
          clusterBalancer) = Inr remote1
   \<and> forceRequested clusterBalancer
        (snd (getConnOverlapped GetConnection liveCtx (publishAll [(otherState, [remote1])])
          (publishAll [(strictState, [local1, local2, remote1]), (otherState, [remote1])])
          clusterBalancer))
   \<and> connectionsState
        (snd (getConnOverlapped GetConnection liveCtx (publishAll [(otherState, [remote1])])
          (publishAll [(strictState, [local1, local2, remote1]), (otherState, [remote1])])
          clusterBalancer)) = Some otherState
   \<and> PreferredCount otherState = 1"
proof -
  have live: "Err liveCtx = None" by (simp add: liveCtx_def)
  have st: "connectionsState clusterBalancer = Some clusterState"
    by (simp add: clusterBalancer_def)
  have rep: "discoveryRepeater clusterBalancer = Some (repeaterNew 60)"
    by (simp add: clusterBalancer_def)
  have sel: "GetConnection clusterState (pool clusterBalancer) = (Some remote1, 2)"
    by (simp add: GetConnection_bannedLocals clusterBalancer_def)
  have other: "PreferredCount otherState = 1"
    by (simp add: PreferredCount_def otherState_def newConnectionsState_def)
  note call = getConn_one_snapshot [where sel = GetConnection, OF live st,
      of "[(otherState, [remote1])]"
         "[(strictState, [local1, local2, remote1]), (otherState, [remote1])]"]
  from call [THEN conjunct1] call [THEN conjunct2, THEN conjunct2, THEN conjunct2, THEN conjunct1]
  have result: "fst (getConnOverlapped GetConnection liveCtx (publishAll [(otherState, [remote1])])
          (publishAll [(strictState, [local1, local2, remote1]), (otherState, [remote1])])
          clusterBalancer) = Inr remote1"
    by (simp add: sel connOrError_def)
  from call [THEN conjunct2, THEN conjunct1]
    call [THEN conjunct2, THEN conjunct2, THEN conjunct2, THEN conjunct2, THEN conjunct1]
  have forced: "forceRequested clusterBalancer
        (snd (getConnOverlapped GetConnection liveCtx (publishAll [(otherState, [remote1])])
          (publishAll [(strictState, [local1, local2, remote1]), (otherState, [remote1])])
          clusterBalancer))"
    by (simp add: sel forceRequested_def rep forceDiscovery_repeater emit_simps
        PreferredCount_clusterState Force_def repeaterNew_def)
  from call [THEN conjunct2, THEN conjunct2, THEN conjunct1]
  have current: "connectionsState
        (snd (getConnOverlapped GetConnection liveCtx (publishAll [(otherState, [remote1])])
          (publishAll [(strictState, [local1, local2, remote1]), (otherState, [remote1])])
          clusterBalancer)) = Some otherState"
    by simp
  from result forced current other show ?thesis by simp
qed

section \<open>Single-connection mode\<close>

text \<open>
  Claim C7. With \<^verbatim>\<open>SingleConn\<close> set, \<^verbatim>\<open>New\<close> returns a Balancer without calling any
  collaborator of discovery (its record of calls is empty, whatever the discovery
  attempts would answer) and without a Repeater, whatever the interval. Its snapshot
  holds exactly the connection of the configured endpoint, and \<^verbatim>\<open>GetConnection\<close> on that
  snapshot returns this connection with no skip, whatever the health flags. After any
  sequence of calls on the instance there is still no Repeater, no discovery event and
  the same snapshot.
\<close>

theorem New_single_connection:
  assumes "ConfigBalancer config = Some bc" and "SingleConn bc"
  shows "\<exists>b state. New config p d a as = Inr b
           \<and> events b = [] \<and> discoveryRepeater b = None \<and> pool b = p
           \<and> connectionsState b = Some state
           \<and> preferConns state @ fallbackConns state = [Get p (endpointNew (ConfigEndpoint config))]
           \<and> (\<forall>health. GetConnection state health
                         = (Some (Get p (endpointNew (ConfigEndpoint config))), 0))
           \<and> (\<forall>sel must calls.
                 noDiscovery (runCalls sel must calls b)
                 \<and> connectionsState (runCalls sel must calls b) = Some state)"
proof -
  let ?c = "Get p (endpointNew (ConfigEndpoint config))"
  let ?state = "newConnectionsState [?c] None [] False"
  let ?b = "\<lparr> driverConfig = config, balancerConfig = bc, pool = p, discoveryRepeater = None,
              connectionsState = Some ?state, onDiscovery = [], events = [] \<rparr>"
  have new: "New config p d a as = Inr ?b"
    using assms by (simp add: New_def)
  have quiet: "noDiscovery ?b" by (simp add: noDiscovery_def)
  have sel: "\<forall>health. GetConnection ?state health = (Some ?c, 0)"
    by (simp add: GetConnection_def newConnectionsState_def)
  have tiers: "preferConns ?state @ fallbackConns ?state = [?c]"
    by (simp add: newConnectionsState_def)
  have later: "\<forall>sel must calls. noDiscovery (runCalls sel must calls ?b)
                 \<and> connectionsState (runCalls sel must calls ?b) = Some ?state"
    using runCalls_quiet [OF quiet] by simp
  show ?thesis
    using new sel tiers later by simp
qed

text \<open>
  The single-connection driver with a positive interval and a Banned connection: the
  Balancer built is the example instance, and selection returns its connection.
\<close>

theorem New_single_connection_witness:
  "New singleConfig bannedSingle 60 goodAttempt [] = Inr singleBalancer
   \<and> GetState bannedSingle (endpointNew ''ydb:2135'') = Banned
   \<and> GetConnection (newConnectionsState [endpointNew ''ydb:2135''] None [] False) bannedSingle
       = (Some (endpointNew ''ydb:2135''), 0)
   \<and> noDiscovery
       (runCalls GetConnection transportButListed
          [Call liveCtx (failing (Transport 14)), CloseCall, Call liveCtx succeeding]
          singleBalancer)"
proof -
  have cfg: "ConfigBalancer singleConfig = Some singleBalancerConfig"
    by (simp add: singleConfig_def)
  have single: "SingleConn singleBalancerConfig"
    by (simp add: singleBalancerConfig_def)
  have new: "New singleConfig bannedSingle 60 goodAttempt [] = Inr singleBalancer"
    by (simp add: New_def cfg single singleBalancer_def singleConfig_def clusterConfig_def
        Get_def)
  have banned: "GetState bannedSingle (endpointNew ''ydb:2135'') = Banned"
    by (simp add: GetState_def bannedSingle_def endpointNew_def)
  from New_single_connection [OF cfg single, of bannedSingle 60 goodAttempt "[]"]
  obtain b state where built: "New singleConfig bannedSingle 60 goodAttempt [] = Inr b"
    and snapshot: "connectionsState b = Some state"
    and sel: "\<forall>health. GetConnection state health
                = (Some (Get bannedSingle (endpointNew (ConfigEndpoint singleConfig))), 0)"
    and later: "\<forall>sel must calls. noDiscovery (runCalls sel must calls b)
                  \<and> connectionsState (runCalls sel must calls b) = Some state"
    by blast
  from built new have b: "b = singleBalancer" by simp
  with snapshot have state: "state = newConnectionsState [endpointNew ''ydb:2135''] None [] False"
    by (simp add: singleBalancer_def)
  have endpoint: "Get bannedSingle (endpointNew (ConfigEndpoint singleConfig))
                    = endpointNew ''ydb:2135''"
    by (simp add: Get_def singleConfig_def clusterConfig_def)
  from sel state endpoint
  have chosen: "GetConnection (newConnectionsState [endpointNew ''ydb:2135''] None [] False)
                  bannedSingle = (Some (endpointNew ''ydb:2135''), 0)"
    by simp
  from later b
  have "noDiscovery
          (runCalls GetConnection transportButListed
             [Call liveCtx (failing (Transport 14)), CloseCall, Call liveCtx succeeding]
             singleBalancer)"
    by blast
  with new banned chosen show ?thesis by simp
qed

end
